theory Spec2Isabelle
  imports Complex_Main "HOL-Library.Char_ord"
begin

section \<open>The monitor agent of the Proactive Financial Monitor\<close>

text \<open>
  A shallow embedding of \<^verbatim>\<open>monitor_agent.py\<close>: the per-ticker state, the sentiment
  helper \<^verbatim>\<open>analyze_news_sentiment\<close> and the two subscribers
  \<^verbatim>\<open>handle_stock_message\<close> and \<^verbatim>\<open>handle_news_message\<close>.

  Conventions of the model.
  \<^item> A Python \<^verbatim>\<open>float\<close> price is an exact \<open>real\<close>: rounding, infinities and NaN are
    outside the model.
  \<^item> A \<^verbatim>\<open>datetime\<close> is an \<open>int\<close>, the number of microseconds since a fixed origin;
    all datetimes are mutually comparable (the producers emit naive ones only), so
    that sorting and subtracting them never raises.
  \<^item> Text is a \<open>string\<close> of ASCII characters.
  \<^item> The two LangChain chains are external: a chain is \<open>None\<close> when the
    initialisation at import time failed, and otherwise a function giving, for a
    request, either the content of the response or the fact that the call raised.
  \<^item> A handler takes the state mapping and returns the new one with an outcome that
    records which branch ran (the source only logs there).
  \<^item> With these conventions no statement inside the \<^verbatim>\<open>try\<close> block of a handler can
    raise, apart from the chain calls, which have their own \<^verbatim>\<open>except\<close>; the catch-all
    \<^verbatim>\<open>except Exception\<close> of the handlers therefore has no branch here.
\<close>

subsection \<open>Messages and state\<close>

type_synonym datetime = int

record StockMessage =
  ticker :: string
  price :: real
  stock_timestamp :: datetime

record NewsMessage =
  headline :: string
  source :: string
  timestamp :: datetime

text \<open>The inner dictionary held for each ticker, with its three keys.\<close>

record ticker_state =
  last_price :: "real option"
  recent_news_sentiments :: "(datetime \<times> string) list"
  last_alert_time :: "datetime option"

type_synonym agent_state_t = "string \<rightharpoonup> ticker_state"

definition agent_state :: agent_state_t where
  "agent_state =
     [''NVDA'' \<mapsto> \<lparr>last_price = None, recent_news_sentiments = [], last_alert_time = None\<rparr>]"

definition MAX_NEWS_HISTORY :: nat where
  "MAX_NEWS_HISTORY = 3"

definition PRICE_CHANGE_THRESHOLD_PERCENT :: real where
  "PRICE_CHANGE_THRESHOLD_PERCENT = 5.0"

definition ALERT_COOLDOWN_SECONDS :: int where
  "ALERT_COOLDOWN_SECONDS = 60 * 10"

text \<open>\<^verbatim>\<open>timedelta.total_seconds()\<close> of a difference of two datetimes.\<close>

definition total_seconds :: "int \<Rightarrow> real" where
  "total_seconds d = real_of_int d / 1000000"

subsection \<open>String operations of Python used by the source\<close>

definition isspace :: "char \<Rightarrow> bool" where
  "isspace c = (c \<in> set [CHR 0x09, CHR 0x0A, CHR 0x0B, CHR 0x0C, CHR 0x0D,
                          CHR 0x1C, CHR 0x1D, CHR 0x1E, CHR 0x1F, CHR 0x20])"

definition strip :: "string \<Rightarrow> string" where
  "strip s = rev (dropWhile isspace (rev (dropWhile isspace s)))"

definition upper_char :: "char \<Rightarrow> char" where
  "upper_char c =
     (if CHR ''a'' \<le> c \<and> c \<le> CHR ''z'' then char_of (of_char c - (32::nat)) else c)"

definition upper :: "string \<Rightarrow> string" where
  "upper s = map upper_char s"

text \<open>\<^verbatim>\<open>s.split()\<close>: the maximal runs of non-whitespace characters, in order.\<close>

fun split_from :: "string \<Rightarrow> string \<Rightarrow> string list" where
  "split_from w [] = (if w = [] then [] else [w])"
| "split_from w (c # cs) =
     (if isspace c then (if w = [] then split_from [] cs else w # split_from [] cs)
      else split_from (w @ [c]) cs)"

definition split :: "string \<Rightarrow> string list" where
  "split s = split_from [] s"

text \<open>\<^verbatim>\<open>sub in s\<close> on strings: \<open>sub\<close> occurs in \<open>s\<close> as a contiguous block.\<close>

fun contains :: "string \<Rightarrow> string \<Rightarrow> bool" where
  "contains [] sub = (sub = [])"
| "contains (c # cs) sub = (take (length sub) (c # cs) = sub \<or> contains cs sub)"

subsection \<open>The sentiment helper\<close>

text \<open>
  What awaiting a chain gives: \<open>Content\<close> is the text of the response; \<open>Raised\<close>
  stands for any exception raised by the call or while the response is read.
\<close>

datatype llm_response = Raised | Content string

type_synonym 'a chain = "('a \<Rightarrow> llm_response) option"

definition valid_sentiments :: "string list" where
  "valid_sentiments = [''POSITIVE'', ''NEGATIVE'', ''NEUTRAL'']"

text \<open>
  Both loops of the helper have the shape
  \<^verbatim>\<open>for valid in valid_sentiments: if test(valid): extracted_sentiment = valid; break\<close>:
  the first element passing the test, or the value held before the loop.
\<close>

fun first_valid :: "(string \<Rightarrow> bool) \<Rightarrow> string list \<Rightarrow> string \<Rightarrow> string" where
  "first_valid test [] extracted = extracted"
| "first_valid test (valid # rest) extracted =
     (if test valid then valid else first_valid test rest extracted)"

definition analyze_news_sentiment :: "string chain \<Rightarrow> string \<Rightarrow> string" where
  "analyze_news_sentiment news_sentiment_chain hl =
     (case news_sentiment_chain of
        None \<Rightarrow> ''ERROR_LLM_UNAVAILABLE''
      | Some ainvoke \<Rightarrow>
          (case ainvoke hl of
             Raised \<Rightarrow> ''ERROR_API_CALL''
           | Content content \<Rightarrow>
               (let sentiment = upper (strip content);
                    response_words = split sentiment;
                    extracted_sentiment =
                      first_valid (\<lambda>valid. valid \<in> set response_words) valid_sentiments ''UNKNOWN'';
                    extracted_sentiment =
                      (if extracted_sentiment = ''UNKNOWN''
                       then first_valid (\<lambda>valid. contains sentiment valid) valid_sentiments
                              extracted_sentiment
                       else extracted_sentiment)
                in extracted_sentiment)))"

subsection \<open>The stock subscriber\<close>

text \<open>The dictionary handed to the insight chain.\<close>

record insight_input =
  in_ticker :: string
  in_current_price :: real
  in_last_price :: real
  in_price_change_percent :: real
  in_recent_news_sentiment :: string
  in_news_count :: nat

datatype insight_outcome =
    Generated string       \<comment> \<open>the insight was logged\<close>
  | Generation_error       \<comment> \<open>the call raised; the error was logged\<close>
  | Chain_unavailable      \<comment> \<open>no chain; the error was logged\<close>

datatype stock_outcome =
    Skipped_invalid_stock  \<comment> \<open>validation failed: warning, return\<close>
  | Initialized            \<comment> \<open>new ticker: state created, return\<close>
  | First_price            \<comment> \<open>no previous price above 0: return\<close>
  | No_trigger real        \<comment> \<open>change computed, conditions not met\<close>
  | Trigger real insight_outcome

text \<open>
  Where the handler stands when it has run up to its only \<^verbatim>\<open>await\<close>: it has returned,
  or the trigger has fired and the context of the insight call is prepared.
\<close>

datatype stock_progress = Returned stock_outcome | Fired insight_input

fun join :: "string \<Rightarrow> string list \<Rightarrow> string" where
  "join sep [] = []"
| "join sep [x] = x"
| "join sep (x # y # ys) = x @ sep @ join sep (y # ys)"

text \<open>
  \<^verbatim>\<open>time_since_last_alert\<close> is a number of seconds or \<^verbatim>\<open>float('inf')\<close>, here \<open>None\<close>;
  \<open>exceeds\<close> is the comparison \<^verbatim>\<open>time_since_last_alert > ALERT_COOLDOWN_SECONDS\<close>.
\<close>

fun exceeds :: "real option \<Rightarrow> real \<Rightarrow> bool" where
  "exceeds None c = True"
| "exceeds (Some x) c = (x > c)"

text \<open>
  The handler from its entry to the end of the context preparation. The two
  \<^verbatim>\<open>isinstance\<close> tests of the validation hold by the types of the message; \<open>now\<close> is
  the value \<^verbatim>\<open>datetime.datetime.now()\<close> returns.
\<close>

definition handle_stock_message_to_trigger ::
  "agent_state_t \<Rightarrow> StockMessage \<Rightarrow> datetime \<Rightarrow> agent_state_t \<times> stock_progress" where
  "handle_stock_message_to_trigger st msg now =
     (let tk = ticker msg in
      if tk = [] \<or> price msg \<le> 0 then (st, Returned Skipped_invalid_stock)
      else
        (case st tk of
           None \<Rightarrow>
             (st(tk \<mapsto> \<lparr>last_price = Some (price msg), recent_news_sentiments = [],
                         last_alert_time = None\<rparr>),
              Returned Initialized)
         | Some s \<Rightarrow>
             (let lp = last_price s;
                  current_price = price msg;
                  s1 = s\<lparr>last_price := Some current_price\<rparr>;
                  st1 = st(tk \<mapsto> s1)
              in case lp of
                   None \<Rightarrow> (st1, Returned First_price)
                 | Some lpv \<Rightarrow>
                     if lpv > 0 then
                       (let price_change_percent = ((current_price - lpv) / lpv) * 100;
                            time_since_last_alert =
                              (case last_alert_time s1 of
                                 Some t \<Rightarrow> Some (total_seconds (now - t))
                               | None \<Rightarrow> None)
                        in if \<bar>price_change_percent\<bar> \<ge> PRICE_CHANGE_THRESHOLD_PERCENT
                               \<and> exceeds time_since_last_alert (real_of_int ALERT_COOLDOWN_SECONDS)
                           then
                             (let s2 = s1\<lparr>last_alert_time := Some now\<rparr>;
                                  sentiments_list = map snd (recent_news_sentiments s2);
                                  sentiment_summary =
                                    (if sentiments_list \<noteq> [] then join '', '' sentiments_list
                                     else ''No recent news'');
                                  news_count = length sentiments_list
                              in (st1(tk \<mapsto> s2),
                                  Fired \<lparr>in_ticker = tk, in_current_price = current_price,
                                         in_last_price = lpv,
                                         in_price_change_percent = price_change_percent,
                                         in_recent_news_sentiment = sentiment_summary,
                                         in_news_count = news_count\<rparr>))
                           else (st1, Returned (No_trigger price_change_percent)))
                     else (st1, Returned First_price))))"

text \<open>The rest of the trigger branch: the call of the insight chain, which only logs.\<close>

definition request_insight :: "insight_input chain \<Rightarrow> insight_input \<Rightarrow> insight_outcome" where
  "request_insight proactive_insight_chain inp =
     (case proactive_insight_chain of
        Some ainvoke \<Rightarrow>
          (case ainvoke inp of
             Content content \<Rightarrow> Generated (strip content)
           | Raised \<Rightarrow> Generation_error)
      | None \<Rightarrow> Chain_unavailable)"

definition handle_stock_message ::
  "insight_input chain \<Rightarrow> agent_state_t \<Rightarrow> StockMessage \<Rightarrow> datetime
     \<Rightarrow> agent_state_t \<times> stock_outcome" where
  "handle_stock_message proactive_insight_chain st msg now =
     (case handle_stock_message_to_trigger st msg now of
        (st1, Returned outcome) \<Rightarrow> (st1, outcome)
      | (st1, Fired inp) \<Rightarrow>
          (st1, Trigger (in_price_change_percent inp)
                        (request_insight proactive_insight_chain inp)))"

fun is_trigger :: "stock_outcome \<Rightarrow> bool" where
  "is_trigger (Trigger pcp ins) = True"
| "is_trigger outcome = False"

subsection \<open>The news subscriber\<close>

datatype news_outcome =
    Skipped_invalid_news     \<comment> \<open>validation failed: warning, return\<close>
  | Updated string           \<comment> \<open>the sentiment was stored\<close>
  | Not_initialized string   \<comment> \<open>no state for the ticker: warning\<close>
  | Discarded string         \<comment> \<open>an error marker or UNKNOWN: nothing stored\<close>

text \<open>
  \<^verbatim>\<open>sentiments.sort(key=lambda item: item[0], reverse=True)\<close>: a stable sort by
  descending timestamp, which Python performs as reverse, stable ascending sort, reverse.
\<close>

definition sort_reverse :: "(datetime \<times> string) list \<Rightarrow> (datetime \<times> string) list" where
  "sort_reverse sentiments = rev (sort_key fst (rev sentiments))"

text \<open>
  The first branch of the source tests \<^verbatim>\<open>ticker in agent_state\<close> together with the
  sentiment, the second \<^verbatim>\<open>ticker not in agent_state\<close>; the lookup below separates the
  same three branches.
\<close>

definition handle_news_message ::
  "string chain \<Rightarrow> agent_state_t \<Rightarrow> NewsMessage \<Rightarrow> agent_state_t \<times> news_outcome" where
  "handle_news_message news_sentiment_chain st msg =
     (let tk = ''NVDA'' in
      if headline msg = [] then (st, Skipped_invalid_news)
      else
        (let sentiment = analyze_news_sentiment news_sentiment_chain (headline msg) in
         case st tk of
           None \<Rightarrow> (st, Not_initialized sentiment)
         | Some s \<Rightarrow>
             if \<not> contains sentiment ''ERROR'' \<and> sentiment \<noteq> ''UNKNOWN'' then
               (let sentiments = recent_news_sentiments s @ [(timestamp msg, sentiment)];
                    sentiments = sort_reverse sentiments
                in (st(tk \<mapsto> s\<lparr>recent_news_sentiments := take MAX_NEWS_HISTORY sentiments\<rparr>),
                    Updated sentiment))
             else (st, Discarded sentiment)))"

subsection \<open>Sequences of events\<close>

text \<open>
  An event is a message with what the environment supplies while it is handled: the
  clock reading and the chain as it answers at that moment. Handlers run one after
  the other from the initial \<open>agent_state\<close>.
\<close>

datatype event =
    Stock_event StockMessage datetime "insight_input chain"
  | News_event NewsMessage "string chain"

fun process :: "agent_state_t \<Rightarrow> event \<Rightarrow> agent_state_t" where
  "process st (Stock_event msg now proactive_insight_chain) =
     fst (handle_stock_message proactive_insight_chain st msg now)"
| "process st (News_event msg news_sentiment_chain) =
     fst (handle_news_message news_sentiment_chain st msg)"

definition run :: "agent_state_t \<Rightarrow> event list \<Rightarrow> agent_state_t" where
  "run st events = foldl process st events"

fun price_event_for :: "string \<Rightarrow> event \<Rightarrow> bool" where
  "price_event_for tk (Stock_event msg now proactive_insight_chain) = (ticker msg = tk)"
| "price_event_for tk (News_event msg news_sentiment_chain) = False"


text \<open>The window held for a ticker, empty when the ticker has no state.\<close>

definition window :: "agent_state_t \<Rightarrow> string \<Rightarrow> (datetime \<times> string) list" where
  "window st tk = (case st tk of None \<Rightarrow> [] | Some s \<Rightarrow> recent_news_sentiments s)"




definition no_price_yet :: "agent_state_t \<Rightarrow> string \<Rightarrow> bool" where
  "no_price_yet st tk =
     (if tk = ''NVDA''
      then (\<exists>s. st tk = Some s \<and> last_price s = None \<and> last_alert_time s = None)
      else st tk = None)"

section \<open>Properties\<close>

subsection \<open>Auxiliary facts\<close>

lemma analyze_news_sentiment_range:
  "analyze_news_sentiment ch h \<in> {''POSITIVE'', ''NEGATIVE'', ''NEUTRAL'', ''UNKNOWN'',
      ''ERROR_LLM_UNAVAILABLE'', ''ERROR_API_CALL''}"
  by (simp add: analyze_news_sentiment_def valid_sentiments_def Let_def
           split: option.split llm_response.split)




lemma set_sort_reverse: "set (sort_reverse xs) = set xs"
  by (simp add: sort_reverse_def)

text \<open>The news handler either leaves the state as it is or stores a valid sentiment.\<close>

lemma handle_news_message_cases:
  "handle_news_message ch st msg = (st', out) \<Longrightarrow>
     st' = st \<or>
     (\<exists>s sentiment. st ''NVDA'' = Some s \<and> headline msg \<noteq> []
        \<and> sentiment = analyze_news_sentiment ch (headline msg)
        \<and> sentiment \<in> set valid_sentiments \<and> out = Updated sentiment
        \<and> st' = st(''NVDA'' \<mapsto> s\<lparr>recent_news_sentiments :=
             take MAX_NEWS_HISTORY
               (sort_reverse (recent_news_sentiments s @ [(timestamp msg, sentiment)]))\<rparr>))"
  using analyze_news_sentiment_range [of ch "headline msg"]
  by (auto simp: handle_news_message_def Let_def valid_sentiments_def
           split: if_splits option.splits)

text \<open>The branches of the stock handler, and the invariants of a run.\<close>

lemma stock_invalid:
  "ticker msg = [] \<or> price msg \<le> 0 \<Longrightarrow>
     handle_stock_message_to_trigger st msg now = (st, Returned Skipped_invalid_stock)"
  by (simp add: handle_stock_message_to_trigger_def)

lemma stock_new:
  "ticker msg \<noteq> [] \<Longrightarrow> 0 < price msg \<Longrightarrow> st (ticker msg) = None \<Longrightarrow>
     handle_stock_message_to_trigger st msg now =
       (st(ticker msg \<mapsto> \<lparr>last_price = Some (price msg), recent_news_sentiments = [],
                            last_alert_time = None\<rparr>), Returned Initialized)"
  by (simp add: handle_stock_message_to_trigger_def)

lemma stock_first:
  "ticker msg \<noteq> [] \<Longrightarrow> 0 < price msg \<Longrightarrow> st (ticker msg) = Some s \<Longrightarrow> last_price s = None \<Longrightarrow>
     handle_stock_message_to_trigger st msg now =
       (st(ticker msg \<mapsto> s\<lparr>last_price := Some (price msg)\<rparr>), Returned First_price)"
  by (simp add: handle_stock_message_to_trigger_def)


lemma stock_state_cases:
  "handle_stock_message_to_trigger st msg now = (st', pr) \<Longrightarrow>
     st' = st \<or>
     (ticker msg \<noteq> [] \<and> 0 < price msg \<and>
       ((st (ticker msg) = None \<and>
           st' = st(ticker msg \<mapsto> \<lparr>last_price = Some (price msg), recent_news_sentiments = [],
                                      last_alert_time = None\<rparr>))
        \<or> (\<exists>s. st (ticker msg) = Some s \<and>
              (st' = st(ticker msg \<mapsto> s\<lparr>last_price := Some (price msg)\<rparr>)
               \<or> st' = st(ticker msg \<mapsto> s\<lparr>last_price := Some (price msg),
                                             last_alert_time := Some now\<rparr>)))))"
  by (auto simp: handle_stock_message_to_trigger_def Let_def split: if_splits option.splits)

lemma fst_handle_stock_message:
  "fst (handle_stock_message ch st msg now) = fst (handle_stock_message_to_trigger st msg now)"
  by (simp add: handle_stock_message_def split: prod.split stock_progress.split)

lemma is_trigger_iff_fired:
  "is_trigger (snd (handle_stock_message ch st msg now))
     \<longleftrightarrow> (\<exists>inp. snd (handle_stock_message_to_trigger st msg now) = Fired inp)"
  by (cases "handle_stock_message_to_trigger st msg now")
     (auto simp: handle_stock_message_def handle_stock_message_to_trigger_def Let_def
           split: if_splits option.splits)














lemma no_price_yet_init: "no_price_yet agent_state tk"
  by (simp add: no_price_yet_def agent_state_def)

lemma no_price_yet_stock:
  assumes "no_price_yet st tk" and "ticker msg \<noteq> tk"
  shows "no_price_yet (fst (handle_stock_message ch st msg now)) tk"
proof -
  obtain st' pr where h: "handle_stock_message_to_trigger st msg now = (st', pr)"
    by (cases "handle_stock_message_to_trigger st msg now")
  from stock_state_cases [OF h] assms(2) have "st' tk = st tk"
    by auto
  with assms(1) show ?thesis
    unfolding fst_handle_stock_message h by (auto simp: no_price_yet_def split: if_splits)
qed

lemma no_price_yet_news:
  assumes "no_price_yet st tk"
  shows "no_price_yet (fst (handle_news_message ch st msg)) tk"
proof -
  obtain st' out where h: "handle_news_message ch st msg = (st', out)"
    by (cases "handle_news_message ch st msg")
  from handle_news_message_cases [OF h] assms show ?thesis
    unfolding h by (auto simp: no_price_yet_def split: if_splits)
qed

lemma no_price_yet_process:
  "no_price_yet st tk \<Longrightarrow> \<not> price_event_for tk e \<Longrightarrow> no_price_yet (process st e) tk"
  by (cases e) (simp_all add: no_price_yet_stock no_price_yet_news)

lemma no_price_yet_foldl:
  "no_price_yet st tk \<Longrightarrow> \<forall>e \<in> set events. \<not> price_event_for tk e \<Longrightarrow>
     no_price_yet (foldl process st events) tk"
  by (induction events arbitrary: st) (simp_all add: no_price_yet_process)

lemma no_price_yet_run:
  "\<forall>e \<in> set events. \<not> price_event_for tk e \<Longrightarrow> no_price_yet (run agent_state events) tk"
  by (simp add: run_def no_price_yet_foldl no_price_yet_init)

lemma no_price_yet_cases:
  "no_price_yet st tk \<Longrightarrow> st tk = None \<or> (\<exists>s. st tk = Some s \<and> last_price s = None)"
  by (auto simp: no_price_yet_def split: if_splits)

lemma snd_handle_stock_message_returned:
  "handle_stock_message_to_trigger st msg now = (st', Returned outcome) \<Longrightarrow>
     handle_stock_message ch st msg now = (st', outcome)"
  by (simp add: handle_stock_message_def)

subsection \<open>The sentiment helper returns a tag\<close>

text \<open>
  C9. \<^verbatim>\<open>analyze_news_sentiment\<close> is total: for every chain (absent, raising or
  answering any text) and every headline it returns one of the six strings POSITIVE,
  NEGATIVE, NEUTRAL, UNKNOWN, ERROR_LLM_UNAVAILABLE, ERROR_API_CALL; an absent chain
  gives ERROR_LLM_UNAVAILABLE and a raising call gives ERROR_API_CALL.
\<close>

theorem analyze_news_sentiment_closed_set:
  "analyze_news_sentiment news_sentiment_chain hl \<in>
     {''POSITIVE'', ''NEGATIVE'', ''NEUTRAL'', ''UNKNOWN'',
      ''ERROR_LLM_UNAVAILABLE'', ''ERROR_API_CALL''}
   \<and> (analyze_news_sentiment None hl = ''ERROR_LLM_UNAVAILABLE'')
   \<and> (analyze_news_sentiment (Some (\<lambda>h. Raised)) hl = ''ERROR_API_CALL'')"
  using analyze_news_sentiment_range [of news_sentiment_chain hl]
  by (simp add: analyze_news_sentiment_def)

subsection \<open>Validation\<close>



subsection \<open>The news handler\<close>

text \<open>
  C10. Handling a news event keeps the key set of the state mapping, leaves the
  entry of every key other than NVDA as it is, and leaves the last price and the
  last alert time of every key as they are.
\<close>

theorem news_frame:
  "dom (fst (handle_news_message news_sentiment_chain st msg)) = dom st
   \<and> (\<forall>tk. tk \<noteq> ''NVDA'' \<longrightarrow> fst (handle_news_message news_sentiment_chain st msg) tk = st tk)
   \<and> (\<forall>tk. map_option last_price (fst (handle_news_message news_sentiment_chain st msg) tk)
            = map_option last_price (st tk))
   \<and> (\<forall>tk. map_option last_alert_time (fst (handle_news_message news_sentiment_chain st msg) tk)
            = map_option last_alert_time (st tk))"
proof -
  obtain st' out where h: "handle_news_message news_sentiment_chain st msg = (st', out)"
    by (cases "handle_news_message news_sentiment_chain st msg")
  from handle_news_message_cases [OF h] show ?thesis
    unfolding h by (auto split: if_splits)
qed

theorem news_frame_witness:
  "''AAPL'' \<noteq> ''NVDA''
   \<and> fst (handle_news_message (Some (\<lambda>h. Content ''Positive'')) agent_state
        \<lparr>headline = ''NVIDIA announces new chip'', source = ''Reuters'', timestamp = 7\<rparr>) ''AAPL''
     = agent_state ''AAPL''"
proof -
  have h: "''AAPL'' \<noteq> ''NVDA''" by simp
  have "fst (handle_news_message (Some (\<lambda>h. Content ''Positive'')) agent_state
        \<lparr>headline = ''NVIDIA announces new chip'', source = ''Reuters'', timestamp = 7\<rparr>) ''AAPL''
     = agent_state ''AAPL''"
    by (rule news_frame [THEN conjunct2, THEN conjunct1, rule_format, OF h])
  with h show ?thesis by (rule conjI)
qed

text \<open>
  C5. Every entry of the NVDA window after a news event was there before or is the
  event's timestamp with POSITIVE, NEGATIVE or NEUTRAL. When the helper returns
  anything else (an error marker or UNKNOWN) the state is unchanged, and the events
  that follow are processed as if the event had not arrived.
\<close>

theorem classifier_failure_isolation:
  "set (window (fst (handle_news_message news_sentiment_chain st msg)) ''NVDA'')
     \<subseteq> set (window st ''NVDA'') \<union> {(timestamp msg, sentiment) | sentiment.
                                     sentiment \<in> {''POSITIVE'', ''NEGATIVE'', ''NEUTRAL''}}
   \<and> (analyze_news_sentiment news_sentiment_chain (headline msg)
        \<notin> {''POSITIVE'', ''NEGATIVE'', ''NEUTRAL''} \<longrightarrow>
      fst (handle_news_message news_sentiment_chain st msg) = st
      \<and> run st (News_event msg news_sentiment_chain # events) = run st events)"
proof -
  obtain st' out where h: "handle_news_message news_sentiment_chain st msg = (st', out)"
    by (cases "handle_news_message news_sentiment_chain st msg")
  from handle_news_message_cases [OF h] show ?thesis
    unfolding h
    by (auto simp: window_def run_def h valid_sentiments_def set_sort_reverse
             dest!: in_set_takeD)
qed

theorem classifier_failure_isolation_witness:
  "analyze_news_sentiment (Some (\<lambda>h. Content ''I cannot tell''))
       (headline \<lparr>headline = ''NVIDIA announces new chip'', source = ''Reuters'', timestamp = 7\<rparr>)
     \<notin> {''POSITIVE'', ''NEGATIVE'', ''NEUTRAL''}
   \<and> (fst (handle_news_message (Some (\<lambda>h. Content ''I cannot tell'')) agent_state
        \<lparr>headline = ''NVIDIA announces new chip'', source = ''Reuters'', timestamp = 7\<rparr>)
     = agent_state
   \<and> run agent_state [News_event
          \<lparr>headline = ''NVIDIA announces new chip'', source = ''Reuters'', timestamp = 7\<rparr>
          (Some (\<lambda>h. Content ''I cannot tell''))] = run agent_state [])"
proof -
  have h: "analyze_news_sentiment (Some (\<lambda>h. Content ''I cannot tell''))
       (headline \<lparr>headline = ''NVIDIA announces new chip'', source = ''Reuters'', timestamp = 7\<rparr>)
     \<notin> {''POSITIVE'', ''NEGATIVE'', ''NEUTRAL''}"
    by code_simp
  show ?thesis
    by (rule conjI [OF h classifier_failure_isolation [THEN conjunct2, rule_format, OF h]])
qed

subsection \<open>The sentiment window\<close>



subsection \<open>The trigger\<close>



text \<open>
  C3. When no price event for a ticker has been handled since the start, a price
  event for it never fires the trigger, whatever its price: the handler returns from
  the validation branch, the initialisation branch or the first-price branch, all of
  which come before the trigger check, and when the event passes validation its
  price is the recorded last price afterwards.
\<close>

theorem first_price_event_no_trigger:
  assumes "\<forall>e \<in> set events. \<not> price_event_for (ticker msg) e"
  shows "\<not> is_trigger (snd (handle_stock_message proactive_insight_chain
                              (run agent_state events) msg now))
     \<and> snd (handle_stock_message proactive_insight_chain (run agent_state events) msg now)
         \<in> {Skipped_invalid_stock, Initialized, First_price}
     \<and> (ticker msg \<noteq> [] \<and> 0 < price msg \<longrightarrow>
          map_option last_price
            (fst (handle_stock_message proactive_insight_chain
                    (run agent_state events) msg now) (ticker msg))
          = Some (Some (price msg)))"
proof (cases "ticker msg = [] \<or> price msg \<le> 0")
  case True
  from stock_invalid [OF True] show ?thesis
    using True by (auto simp: handle_stock_message_def)
next
  case False
  then have v: "ticker msg \<noteq> []" "0 < price msg" by auto
  from no_price_yet_cases [OF no_price_yet_run [OF assms]]
  show ?thesis
  proof
    assume n: "run agent_state events (ticker msg) = None"
    show ?thesis
      by (simp add: snd_handle_stock_message_returned [OF stock_new [where st = "run agent_state events", OF v n]])
  next
    assume "\<exists>s. run agent_state events (ticker msg) = Some s \<and> last_price s = None"
    then obtain s where s: "run agent_state events (ticker msg) = Some s" "last_price s = None"
      by auto
    show ?thesis
      by (simp add: snd_handle_stock_message_returned [OF stock_first [where st = "run agent_state events", OF v s]])
  qed
qed

theorem first_price_event_no_trigger_witness:
  "\<not> is_trigger (snd (handle_stock_message None
        (run agent_state [News_event \<lparr>headline = ''NVIDIA announces new chip'',
                                       source = ''Reuters'', timestamp = 7\<rparr>
                            (Some (\<lambda>h. Content ''Positive''))])
        \<lparr>ticker = ''NVDA'', price = 1000000, stock_timestamp = 9\<rparr> 9))"
proof -
  have h: "\<forall>e \<in> set [News_event \<lparr>headline = ''NVIDIA announces new chip'', source = ''Reuters'',
                               timestamp = 7\<rparr> (Some (\<lambda>h. Content ''Positive''))].
      \<not> price_event_for (ticker \<lparr>ticker = ''NVDA'', price = 1000000, stock_timestamp = 9\<rparr>) e"
    by simp
  show ?thesis
    by (rule first_price_event_no_trigger [OF h, THEN conjunct1])
qed

text \<open>
  C4. When the trigger fires, the state the handler holds when it reaches the
  insight call already has the ticker's last alert time set to \<open>now\<close>, and the
  final state is that very state whatever the chain does: absent, raising or
  answering, any two chains leave the same state.
\<close>

theorem insight_result_changes_no_state:
  assumes "is_trigger (snd (handle_stock_message proactive_insight_chain st msg now))"
  shows "(\<exists>inp. snd (handle_stock_message_to_trigger st msg now) = Fired inp)
     \<and> map_option last_alert_time
         (fst (handle_stock_message_to_trigger st msg now) (ticker msg)) = Some (Some now)
     \<and> fst (handle_stock_message other_chain st msg now)
         = fst (handle_stock_message_to_trigger st msg now)
     \<and> fst (handle_stock_message other_chain st msg now)
         = fst (handle_stock_message proactive_insight_chain st msg now)"
proof -
  from assms obtain inp where f: "snd (handle_stock_message_to_trigger st msg now) = Fired inp"
    unfolding is_trigger_iff_fired by auto
  then have "map_option last_alert_time
         (fst (handle_stock_message_to_trigger st msg now) (ticker msg)) = Some (Some now)"
    by (auto simp: handle_stock_message_to_trigger_def Let_def split: if_splits option.splits)
  with f show ?thesis
    by (simp add: fst_handle_stock_message)
qed

theorem insight_result_changes_no_state_witness:
  "is_trigger (snd (handle_stock_message (Some (\<lambda>inp. Raised))
       (agent_state(''NVDA'' \<mapsto> \<lparr>last_price = Some 100, recent_news_sentiments = [],
                                 last_alert_time = None\<rparr>))
       \<lparr>ticker = ''NVDA'', price = 110, stock_timestamp = 9\<rparr> 9))
   \<and> map_option last_alert_time
        (fst (handle_stock_message_to_trigger
           (agent_state(''NVDA'' \<mapsto> \<lparr>last_price = Some 100, recent_news_sentiments = [],
                                     last_alert_time = None\<rparr>))
           \<lparr>ticker = ''NVDA'', price = 110, stock_timestamp = 9\<rparr> 9)
         (ticker \<lparr>ticker = ''NVDA'', price = 110, stock_timestamp = 9\<rparr>)) = Some (Some 9)
   \<and> fst (handle_stock_message (Some (\<lambda>inp. Content ''NVDA rose 10%.''))
       (agent_state(''NVDA'' \<mapsto> \<lparr>last_price = Some 100, recent_news_sentiments = [],
                                 last_alert_time = None\<rparr>))
       \<lparr>ticker = ''NVDA'', price = 110, stock_timestamp = 9\<rparr> 9)
     = fst (handle_stock_message (Some (\<lambda>inp. Raised))
       (agent_state(''NVDA'' \<mapsto> \<lparr>last_price = Some 100, recent_news_sentiments = [],
                                 last_alert_time = None\<rparr>))
       \<lparr>ticker = ''NVDA'', price = 110, stock_timestamp = 9\<rparr> 9)"
proof -
  have h: "is_trigger (snd (handle_stock_message (Some (\<lambda>inp. Raised))
       (agent_state(''NVDA'' \<mapsto> \<lparr>last_price = Some 100, recent_news_sentiments = [],
                                 last_alert_time = None\<rparr>))
       \<lparr>ticker = ''NVDA'', price = 110, stock_timestamp = 9\<rparr> 9))"
    by (simp add: handle_stock_message_def handle_stock_message_to_trigger_def Let_def
          PRICE_CHANGE_THRESHOLD_PERCENT_def)
  note t = insight_result_changes_no_state [OF h,
      of "Some (\<lambda>inp. Content ''NVDA rose 10%.'')"]
  show ?thesis
    by (rule conjI [OF h conjI [OF t [THEN conjunct2, THEN conjunct1]
                                   t [THEN conjunct2, THEN conjunct2, THEN conjunct2]]])
qed

subsection \<open>Creation of the state of a ticker\<close>




end
